theory Spec2Isabelle
  imports Complex_Main
begin

section \<open>Data model\<close>

text \<open>
  The component \<open>Calculator\<close> keeps one state record and replaces it on every input
  event through a pure updater \<open>prev \<Rightarrow> next\<close>. The updaters are modelled as functions on
  the record below.

  A JavaScript \<open>number\<close> is an IEEE double: not-a-number, the two infinities, the negative
  zero, or a finite rational (\<open>Fin 0\<close> is the positive zero). The type is wider than the
  doubles; only comparisons and the two predicates \<open>isNaN\<close> and \<open>isFinite\<close> are defined on
  it here, and they are exact on every double.
\<close>

datatype number = NaN | PosInf | NegInf | NegZero | Fin rat

datatype Emotion = Happy | Neutral | Sad | Excited

datatype Mode = Basic | Scientific

datatype AngleUnit = DEG | RAD

record CalculatorState =
  display :: string
  previousValue :: string
  operation :: "string option"
  emotion :: Emotion
  mode :: Mode
  memory :: number
  angleUnit :: AngleUnit

definition MAX_DIGITS :: nat where
  "MAX_DIGITS = 16"

definition initialState :: CalculatorState where
  "initialState =
     \<lparr>display = ''0'', previousValue = [], operation = None, emotion = Neutral,
      mode = Basic, memory = Fin 0, angleUnit = DEG\<rparr>"

section \<open>Formatting\<close>

text \<open>
  \<open>formatNumber\<close> splits at the decimal points, rewrites the first part with the regular
  expression \<^verbatim>\<open>/\B(?=(\d{3})+(?!\d))/g\<close> and glues the second part back on.
  The regular expression is zero-width: it matches at a position that is not a word
  boundary and from which a positive number of groups of three digits runs up to a
  character that is not a digit.
\<close>

definition is_digit :: "char \<Rightarrow> bool" where
  "is_digit c = (c \<in> set ''0123456789'')"

definition is_word :: "char \<Rightarrow> bool" where
  "is_word c =
     (c \<in> set ''abcdefghijklmnopqrstuvwxyzABCDEFGHIJKLMNOPQRSTUVWXYZ0123456789_'')"

text \<open>\<open>num.split('.')\<close>: the pieces between the points; never the empty list.\<close>

fun split_dot :: "string \<Rightarrow> string list" where
  "split_dot [] = [Nil]"
| "split_dot (c # cs) =
     (if c = CHR ''.'' then [] # split_dot cs
      else (c # hd (split_dot cs)) # tl (split_dot cs))"

text \<open>\<^verbatim>\<open>(?!\d)\<close>: the text ahead does not start with a digit.\<close>

fun not_digit_ahead :: "string \<Rightarrow> bool" where
  "not_digit_ahead [] = True"
| "not_digit_ahead (c # cs) = (\<not> is_digit c)"

text \<open>\<^verbatim>\<open>(\d{3})+(?!\d)\<close> matched against the text ahead.\<close>

fun digit_groups :: "string \<Rightarrow> bool" where
  "digit_groups (a # b # c # r) =
     (is_digit a \<and> is_digit b \<and> is_digit c \<and> (digit_groups r \<or> not_digit_ahead r))"
| "digit_groups r = False"

text \<open>
  \<^verbatim>\<open>\B\<close> between the character before (none at the start) and the one after:
  both are word characters or neither is.
\<close>

fun word_char :: "char option \<Rightarrow> bool" where
  "word_char None = False"
| "word_char (Some c) = is_word c"

definition non_boundary :: "char option \<Rightarrow> char option \<Rightarrow> bool" where
  "non_boundary l r = (word_char l = word_char r)"

text \<open>
  The global replace: every position of the text is tried from left to right and a comma
  is put at each match. No match is possible at the end of the text, where no digit is
  ahead.
\<close>

fun replace_groups :: "char option \<Rightarrow> string \<Rightarrow> string" where
  "replace_groups l [] = []"
| "replace_groups l (c # cs) =
     (if non_boundary l (Some c) \<and> digit_groups (c # cs) then '','' else [])
     @ c # replace_groups (Some c) cs"

definition formatNumber :: "string \<Rightarrow> string" where
  "formatNumber num =
     (let parts = split_dot num;
          integerPart = replace_groups None (parts ! 0)
      in if length parts > 1 then integerPart @ ''.'' @ parts ! 1 else integerPart)"

definition unformatNumber :: "string \<Rightarrow> string" where
  "unformatNumber num = filter (\<lambda>c. c \<noteq> CHR '','') num"

section \<open>Entry of digits, decimal point and backspace\<close>

definition handleNumber :: "string \<Rightarrow> CalculatorState \<Rightarrow> CalculatorState" where
  "handleNumber num prev =
     (let currentNum = unformatNumber (display prev) in
      if length currentNum \<ge> MAX_DIGITS then prev
      else
        let newDisplay = (if display prev = ''0'' then num else currentNum @ num)
        in prev\<lparr>display := formatNumber newDisplay, emotion := Neutral\<rparr>)"

text \<open>The updater of the \<^verbatim>\<open>'.'\<close> button (and of the \<^verbatim>\<open>'.'\<close> key).\<close>

definition handleDecimal :: "CalculatorState \<Rightarrow> CalculatorState" where
  "handleDecimal prev =
     (let currentNum = unformatNumber (display prev) in
      if CHR ''.'' \<in> set currentNum then prev
      else prev\<lparr>display := formatNumber (currentNum @ ''.'')\<rparr>)"

text \<open>
  The updater of the backspace button (and of the Backspace key);
  \<^verbatim>\<open>slice(0, -1) || '0'\<close> falls back to \<^verbatim>\<open>'0'\<close> on the empty string.
\<close>

definition handleBackspace :: "CalculatorState \<Rightarrow> CalculatorState" where
  "handleBackspace prev =
     (let currentNum = unformatNumber (display prev);
          newDisplay = (if butlast currentNum = [] then ''0'' else butlast currentNum)
      in prev\<lparr>display := formatNumber newDisplay\<rparr>)"

definition handleOperation :: "string \<Rightarrow> CalculatorState \<Rightarrow> CalculatorState" where
  "handleOperation op prev =
     prev\<lparr>previousValue := display prev, operation := Some op,
          display := ''0'', emotion := Neutral\<rparr>"

definition clear :: "CalculatorState \<Rightarrow> CalculatorState" where
  "clear prev =
     prev\<lparr>display := ''0'', previousValue := [], operation := None, emotion := Neutral\<rparr>"

definition toggleMode :: "CalculatorState \<Rightarrow> CalculatorState" where
  "toggleMode prev = prev\<lparr>mode := (if mode prev = Basic then Scientific else Basic)\<rparr>"

definition toggleAngleUnit :: "CalculatorState \<Rightarrow> CalculatorState" where
  "toggleAngleUnit prev = prev\<lparr>angleUnit := (if angleUnit prev = DEG then RAD else DEG)\<rparr>"

section \<open>Numbers of the platform\<close>

text \<open>
  The arithmetic of the language is IEEE 754 in round-to-nearest mode: the exact result,
  rounded. Rounding, the parsing and printing of finite numbers and the functions of
  \<^verbatim>\<open>Math\<close> belong to the platform and not to the component; they are the fields of
  the record \<open>platform\<close>, a parameter of every function that calls them. So is the
  depth of the call stack: \<open>maxCallDepth\<close> is the number of nested calls of \<open>factorial\<close>
  the engine has room for where \<open>handleScientific\<close> calls it; one call more raises
  \<^verbatim>\<open>RangeError\<close>. What the
  language fixes is written out: the special values of the four operations, the names
  under which the special values print, and the comparisons.
\<close>

record platform =
  roundDouble :: "rat \<Rightarrow> number"
  parseFloat :: "string \<Rightarrow> number"
  finiteToString :: "rat \<Rightarrow> string"
  finiteToExponential :: "rat \<Rightarrow> nat \<Rightarrow> string"
  Math_sin :: "number \<Rightarrow> number"
  Math_cos :: "number \<Rightarrow> number"
  Math_tan :: "number \<Rightarrow> number"
  Math_sqrt :: "number \<Rightarrow> number"
  Math_pow :: "number \<Rightarrow> number \<Rightarrow> number"
  Math_log10 :: "number \<Rightarrow> number"
  Math_log :: "number \<Rightarrow> number"
  Math_exp :: "number \<Rightarrow> number"
  Math_PI :: number
  Math_E :: number
  maxCallDepth :: nat

fun isNaN :: "number \<Rightarrow> bool" where
  "isNaN NaN = True"
| "isNaN x = False"

fun isFinite :: "number \<Rightarrow> bool" where
  "isFinite NaN = False"
| "isFinite PosInf = False"
| "isFinite NegInf = False"
| "isFinite x = True"

fun is_inf :: "number \<Rightarrow> bool" where
  "is_inf PosInf = True"
| "is_inf NegInf = True"
| "is_inf x = False"

fun is_zero :: "number \<Rightarrow> bool" where
  "is_zero NegZero = True"
| "is_zero (Fin q) = (q = 0)"
| "is_zero x = False"

text \<open>The sign bit, and the value of a finite number.\<close>

fun is_neg :: "number \<Rightarrow> bool" where
  "is_neg NegInf = True"
| "is_neg NegZero = True"
| "is_neg (Fin q) = (q < 0)"
| "is_neg x = False"

fun fin_val :: "number \<Rightarrow> rat" where
  "fin_val (Fin q) = q"
| "fin_val x = 0"

definition signed_inf :: "bool \<Rightarrow> number" where
  "signed_inf neg = (if neg then NegInf else PosInf)"

definition signed_zero :: "bool \<Rightarrow> number" where
  "signed_zero neg = (if neg then NegZero else Fin 0)"

text \<open>\<open>a < b\<close> of the language: false as soon as one side is not a number.\<close>

definition js_less :: "number \<Rightarrow> number \<Rightarrow> bool" where
  "js_less a b =
     (if isNaN a \<or> isNaN b then False
      else if a = PosInf \<or> b = NegInf then False
      else if a = NegInf \<or> b = PosInf then True
      else fin_val a < fin_val b)"

text \<open>\<open>a <= b\<close> of the language.\<close>

definition js_le :: "number \<Rightarrow> number \<Rightarrow> bool" where
  "js_le a b = (if isNaN a \<or> isNaN b then False else \<not> js_less b a)"

definition js_neg :: "number \<Rightarrow> number" where
  "js_neg a =
     (case a of NaN \<Rightarrow> NaN | PosInf \<Rightarrow> NegInf | NegInf \<Rightarrow> PosInf
      | NegZero \<Rightarrow> Fin 0 | Fin q \<Rightarrow> (if q = 0 then NegZero else Fin (- q)))"

definition js_add :: "platform \<Rightarrow> number \<Rightarrow> number \<Rightarrow> number" where
  "js_add P a b =
     (if isNaN a \<or> isNaN b then NaN
      else if is_inf a \<and> is_inf b then (if a = b then a else NaN)
      else if is_inf a then a
      else if is_inf b then b
      else if is_zero a \<and> is_zero b then signed_zero (is_neg a \<and> is_neg b)
      else if fin_val a + fin_val b = 0 then Fin 0
      else roundDouble P (fin_val a + fin_val b))"

definition js_sub :: "platform \<Rightarrow> number \<Rightarrow> number \<Rightarrow> number" where
  "js_sub P a b = js_add P a (js_neg b)"

definition js_mul :: "platform \<Rightarrow> number \<Rightarrow> number \<Rightarrow> number" where
  "js_mul P a b =
     (if isNaN a \<or> isNaN b then NaN
      else if (is_inf a \<and> is_zero b) \<or> (is_zero a \<and> is_inf b) then NaN
      else if is_inf a \<or> is_inf b then signed_inf (is_neg a \<noteq> is_neg b)
      else if is_zero a \<or> is_zero b then signed_zero (is_neg a \<noteq> is_neg b)
      else roundDouble P (fin_val a * fin_val b))"

definition js_div :: "platform \<Rightarrow> number \<Rightarrow> number \<Rightarrow> number" where
  "js_div P a b =
     (if isNaN a \<or> isNaN b then NaN
      else if (is_inf a \<and> is_inf b) \<or> (is_zero a \<and> is_zero b) then NaN
      else if is_inf a \<or> is_zero b then signed_inf (is_neg a \<noteq> is_neg b)
      else if is_inf b \<or> is_zero a then signed_zero (is_neg a \<noteq> is_neg b)
      else roundDouble P (fin_val a / fin_val b))"

text \<open>\<open>x.toString()\<close> and \<open>x.toExponential(f)\<close>.\<close>

definition toString :: "platform \<Rightarrow> number \<Rightarrow> string" where
  "toString P x =
     (case x of NaN \<Rightarrow> ''NaN'' | PosInf \<Rightarrow> ''Infinity'' | NegInf \<Rightarrow> ''-Infinity''
      | NegZero \<Rightarrow> ''0'' | Fin q \<Rightarrow> finiteToString P q)"

definition toExponential :: "platform \<Rightarrow> number \<Rightarrow> nat \<Rightarrow> string" where
  "toExponential P x f =
     (case x of NaN \<Rightarrow> ''NaN'' | PosInf \<Rightarrow> ''Infinity'' | NegInf \<Rightarrow> ''-Infinity''
      | NegZero \<Rightarrow> finiteToExponential P 0 f | Fin q \<Rightarrow> finiteToExponential P q f)"

section \<open>Evaluation\<close>

definition getEmotion :: "number \<Rightarrow> Emotion" where
  "getEmotion result =
     (if js_less (Fin 1000) result then Excited
      else if js_less (Fin 100) result then Happy
      else if js_less result (Fin 0) then Sad
      else Neutral)"

text \<open>The operator signs of the multiplication and division buttons (U+00D7, U+00F7).\<close>

definition times_sign :: string where
  "times_sign = [CHR 0xD7]"

definition divide_sign :: string where
  "divide_sign = [CHR 0xF7]"

text \<open>
  The \<open>switch\<close> of \<open>calculate\<close>; \<open>None\<close> is its \<open>default\<close> branch, where the updater
  returns \<open>prev\<close>.
\<close>

definition binary_switch ::
  "platform \<Rightarrow> string option \<Rightarrow> number \<Rightarrow> number \<Rightarrow> number option" where
  "binary_switch P opn prevNum currentNum =
     (if opn = Some ''+'' then Some (js_add P prevNum currentNum)
      else if opn = Some ''-'' then Some (js_sub P prevNum currentNum)
      else if opn = Some times_sign then Some (js_mul P prevNum currentNum)
      else if opn = Some divide_sign then Some (js_div P prevNum currentNum)
      else None)"

text \<open>A result that prints longer than the cap is rounded through \<open>toExponential(8)\<close>.\<close>

definition shorten :: "platform \<Rightarrow> number \<Rightarrow> number" where
  "shorten P result =
     (let resultString = toString P result in
      if length resultString > MAX_DIGITS then parseFloat P (toExponential P result 8)
      else result)"

text \<open>The number that \<open>calculate\<close> prints and hands to \<open>getEmotion\<close>, if it computes one.\<close>

definition calculate_result :: "platform \<Rightarrow> CalculatorState \<Rightarrow> number option" where
  "calculate_result P prev =
     (let prevNum = parseFloat P (unformatNumber (previousValue prev));
          currentNum = parseFloat P (unformatNumber (display prev))
      in map_option (shorten P) (binary_switch P (operation prev) prevNum currentNum))"

definition calculate :: "platform \<Rightarrow> CalculatorState \<Rightarrow> CalculatorState" where
  "calculate P prev =
     (case calculate_result P prev of
        None \<Rightarrow> prev
      | Some result \<Rightarrow>
          prev\<lparr>display := formatNumber (toString P result), previousValue := [],
               operation := None, emotion := getEmotion result\<rparr>)"

text \<open>
  \<open>prev.previousValue && prev.operation\<close>: a string is truthy when it is not empty,
  \<open>null\<close> is falsy.
\<close>

definition pending :: "CalculatorState \<Rightarrow> bool" where
  "pending prev =
     (previousValue prev \<noteq> [] \<and>
      (case operation prev of None \<Rightarrow> False | Some op \<Rightarrow> op \<noteq> []))"

definition handlePercent :: "platform \<Rightarrow> CalculatorState \<Rightarrow> CalculatorState" where
  "handlePercent P prev =
     (let currentNum = parseFloat P (unformatNumber (display prev)) in
      if pending prev then
        let base = parseFloat P (unformatNumber (previousValue prev));
            percentValue = js_div P (js_mul P base currentNum) (Fin 100)
        in prev\<lparr>display := formatNumber (toString P percentValue)\<rparr>
      else
        let percentValue = js_div P currentNum (Fin 100)
        in prev\<lparr>display := formatNumber (toString P percentValue)\<rparr>)"

section \<open>Scientific functions\<close>

definition toRadians :: "platform \<Rightarrow> number \<Rightarrow> number" where
  "toRadians P degrees = js_mul P degrees (js_div P (Math_PI P) (Fin 180))"

text \<open>
  \<open>factorial\<close> calls itself once for every step down from its argument, and the engine
  ends a chain of calls that outgrows its stack by raising \<^verbatim>\<open>RangeError\<close>. So every
  call ends: with a number, or with the error, which is the result \<open>None\<close>.
  \<open>factorial_calls P d\<close> is the function with room for \<open>d\<close> more nested calls.
\<close>

fun factorial_calls :: "platform \<Rightarrow> nat \<Rightarrow> number \<Rightarrow> number option" where
  "factorial_calls P 0 n = None"
| "factorial_calls P (Suc d) n =
     (if js_less n (Fin 0) then Some NaN
      else if js_le n (Fin 1) then Some (Fin 1)
      else Option.bind (factorial_calls P d (js_sub P n (Fin 1)))
             (\<lambda>r. Some (js_mul P n r)))"

definition factorial :: "platform \<Rightarrow> number \<Rightarrow> number option" where
  "factorial P n = factorial_calls P (maxCallDepth P) n"

text \<open>
  The \<open>switch\<close> of \<open>handleScientific\<close>: outer \<open>None\<close> is the \<open>default\<close> branch, inner
  \<open>None\<close> a factorial that raises \<^verbatim>\<open>RangeError\<close>, which leaves the updater with no
  state to return. The angle unit is read from the rendered
  state, which is the state the updater receives.
\<close>

definition scientific_switch ::
  "platform \<Rightarrow> AngleUnit \<Rightarrow> string \<Rightarrow> number \<Rightarrow> number option option" where
  "scientific_switch P au func currentNum =
     (if func = ''sin'' then
        Some (Some (if au = DEG then Math_sin P (toRadians P currentNum)
                    else Math_sin P currentNum))
      else if func = ''cos'' then
        Some (Some (if au = DEG then Math_cos P (toRadians P currentNum)
                    else Math_cos P currentNum))
      else if func = ''tan'' then
        Some (Some (if au = DEG then Math_tan P (toRadians P currentNum)
                    else Math_tan P currentNum))
      else if func = ''sqrt'' then Some (Some (Math_sqrt P currentNum))
      else if func = ''square'' then Some (Some (Math_pow P currentNum (Fin 2)))
      else if func = ''cube'' then Some (Some (Math_pow P currentNum (Fin 3)))
      else if func = ''log'' then Some (Some (Math_log10 P currentNum))
      else if func = ''ln'' then Some (Some (Math_log P currentNum))
      else if func = ''!'' then Some (factorial P currentNum)
      else if func = ''inv'' then Some (Some (js_div P (Fin 1) currentNum))
      else if func = ''exp'' then Some (Some (Math_exp P currentNum))
      else if func = ''pi'' then Some (Some (Math_PI P))
      else if func = ''e'' then Some (Some (Math_E P))
      else None)"

definition handleScientific ::
  "platform \<Rightarrow> string \<Rightarrow> CalculatorState \<Rightarrow> CalculatorState option" where
  "handleScientific P func prev =
     (let currentNum = parseFloat P (unformatNumber (display prev)) in
      case scientific_switch P (angleUnit prev) func currentNum of
        None \<Rightarrow> Some prev
      | Some None \<Rightarrow> None
      | Some (Some result) \<Rightarrow>
          Some (if isNaN result \<or> \<not> isFinite result
                then prev\<lparr>display := ''Error'', emotion := Sad\<rparr>
                else prev\<lparr>display := formatNumber (toString P result),
                          emotion := getEmotion result\<rparr>))"

section \<open>Input events\<close>

text \<open>
  The buttons and keys of the component, each bound to one updater. A run applies the
  updaters of a list of events in turn; it has no result when an updater raises an error.
\<close>

datatype Event =
  Digit char | DecimalPoint | Backspace | Operator string | Equals | Percent
  | Function string | ToggleMode | ToggleAngleUnit | Clear

fun step :: "platform \<Rightarrow> Event \<Rightarrow> CalculatorState \<Rightarrow> CalculatorState option" where
  "step P (Digit d) s = Some (handleNumber [d] s)"
| "step P DecimalPoint s = Some (handleDecimal s)"
| "step P Backspace s = Some (handleBackspace s)"
| "step P (Operator op) s = Some (handleOperation op s)"
| "step P Equals s = Some (calculate P s)"
| "step P Percent s = Some (handlePercent P s)"
| "step P (Function func) s = handleScientific P func s"
| "step P ToggleMode s = Some (toggleMode s)"
| "step P ToggleAngleUnit s = Some (toggleAngleUnit s)"
| "step P Clear s = Some (clear s)"

fun run :: "platform \<Rightarrow> Event list \<Rightarrow> CalculatorState \<Rightarrow> CalculatorState option" where
  "run P [] s = Some s"
| "run P (e # es) s = (case step P e s of None \<Rightarrow> None | Some s' \<Rightarrow> run P es s')"

text \<open>
  The events the interface can send: the digit buttons and keys carry one of the ten
  digits, the operator buttons and keys one of the four signs; the function buttons carry
  the names that \<open>handleScientific\<close> knows.
\<close>

fun valid_event :: "Event \<Rightarrow> bool" where
  "valid_event (Digit d) = is_digit d"
| "valid_event (Operator op) = (op \<in> set [''+'', ''-'', times_sign, divide_sign])"
| "valid_event e = True"

text \<open>
  The events that only edit the display or the pending operation: they print no number
  of the platform and add no decimal point.
\<close>

fun entry_event :: "Event \<Rightarrow> bool" where
  "entry_event (Digit d) = is_digit d"
| "entry_event Backspace = True"
| "entry_event (Operator op) = (op \<in> set [''+'', ''-'', times_sign, divide_sign])"
| "entry_event ToggleMode = True"
| "entry_event ToggleAngleUnit = True"
| "entry_event Clear = True"
| "entry_event e = False"

text \<open>
  What \<open>formatNumber\<close> keeps of its argument: the text up to the second decimal point.
\<close>

definition kept :: "string \<Rightarrow> string" where
  "kept num =
     (let parts = split_dot num
      in if length parts > 1 then parts ! 0 @ ''.'' @ parts ! 1 else parts ! 0)"

text \<open>
  A state is well formed when its display is not empty and an operation is stored exactly
  when a previous value is.
\<close>

definition well_formed :: "CalculatorState \<Rightarrow> bool" where
  "well_formed s = (display s \<noteq> [] \<and> (operation s \<noteq> None \<longleftrightarrow> previousValue s \<noteq> []))"

section \<open>A reference platform\<close>

text \<open>
  The theorems below hold for every platform. Where one of them is run on a concrete
  input, the platform is the following one: rounding is the identity, so the arithmetic
  is exact, numbers are read and printed as decimal numerals, the stack has room for
  10000 nested calls, and the functions of
  \<^verbatim>\<open>Math\<close> are truncated series, crude away from the centre of the expansion.
  It agrees with IEEE double arithmetic wherever the operands and the exact result are
  doubles with a short decimal numeral, which is the case of the integers and binary
  fractions it is run on here; its constants \<open>pi\<close> and \<open>e\<close> are the decimal numerals
  under which the doubles of the language print.
\<close>

definition digit_char :: "nat \<Rightarrow> char" where
  "digit_char d = ''0123456789'' ! d"

definition digit_val :: "char \<Rightarrow> int" where
  "digit_val c = of_char c - 48"

text \<open>The decimal numeral of an integer that is not negative.\<close>

function digits_of :: "int \<Rightarrow> string" where
  "digits_of n =
     (if n < 10 then [digit_char (nat n)]
      else digits_of (n div 10) @ [digit_char (nat (n mod 10))])"
  by pat_completeness auto
termination
  by (relation "measure nat") auto

declare digits_of.simps [simp del]

definition int_of_digits :: "string \<Rightarrow> int" where
  "int_of_digits ds = foldl (\<lambda>n c. 10 * n + digit_val c) 0 ds"

definition scale10 :: "rat \<Rightarrow> int \<Rightarrow> rat" where
  "scale10 a e = (if e \<ge> 0 then a * 10 ^ nat e else a / 10 ^ nat (- e))"

text \<open>Up to \<open>k\<close> digits of a fraction below one, cut off.\<close>

fun frac_digits :: "nat \<Rightarrow> rat \<Rightarrow> string" where
  "frac_digits 0 r = []"
| "frac_digits (Suc k) r =
     (if r = 0 then []
      else digit_char (nat \<lfloor>r * 10\<rfloor>) # frac_digits k (r * 10 - of_int \<lfloor>r * 10\<rfloor>))"

definition ref_finiteToString :: "rat \<Rightarrow> string" where
  "ref_finiteToString q =
     (let a = \<bar>q\<bar>; fr = a - of_int \<lfloor>a\<rfloor> in
      (if q < 0 then ''-'' else []) @ digits_of \<lfloor>a\<rfloor>
      @ (if fr = 0 then [] else ''.'' @ frac_digits 17 fr))"

text \<open>The decimal exponent of a positive rational.\<close>

fun scale_up :: "nat \<Rightarrow> rat \<Rightarrow> nat" where
  "scale_up 0 a = 0"
| "scale_up (Suc k) a = (if a \<ge> 1 then 0 else Suc (scale_up k (a * 10)))"

definition dec_exponent :: "rat \<Rightarrow> int" where
  "dec_exponent a =
     (if a \<ge> 1 then int (length (digits_of \<lfloor>a\<rfloor>)) - 1
      else - int (scale_up (length (digits_of (snd (quotient_of a)))) a))"

definition ref_finiteToExponential :: "rat \<Rightarrow> nat \<Rightarrow> string" where
  "ref_finiteToExponential q f =
     (if q = 0 then ''0'' @ (if f = 0 then [] else ''.'' @ replicate f CHR ''0'') @ ''e+0''
      else
        let e0 = dec_exponent \<bar>q\<bar>;
            n0 = \<lfloor>scale10 \<bar>q\<bar> (int f - e0) + 1 / 2\<rfloor>;
            n = (if n0 \<ge> 10 ^ Suc f then n0 div 10 else n0);
            e = (if n0 \<ge> 10 ^ Suc f then e0 + 1 else e0);
            ds = digits_of n
        in (if q < 0 then ''-'' else []) @ take 1 ds
           @ (if f = 0 then [] else ''.'' @ drop 1 ds)
           @ ''e'' @ (if e < 0 then ''-'' else ''+'') @ digits_of \<bar>e\<bar>)"

text \<open>
  The longest prefix that is a decimal literal, after leading blanks: sign, digits,
  fraction, exponent, or \<^verbatim>\<open>Infinity\<close>; not-a-number when there is none.
\<close>

definition ref_parseFloat :: "string \<Rightarrow> number" where
  "ref_parseFloat s =
     (let s1 = dropWhile (\<lambda>c. c = CHR '' '') s;
          neg = (take 1 s1 = ''-'');
          body = (if take 1 s1 = ''-'' \<or> take 1 s1 = ''+'' then drop 1 s1 else s1);
          ip = takeWhile is_digit body;
          r1 = dropWhile is_digit body;
          dot = (take 1 r1 = ''.'');
          fp = (if dot then takeWhile is_digit (drop 1 r1) else []);
          r2 = (if dot then dropWhile is_digit (drop 1 r1) else r1);
          r3 = drop 1 r2;
          r4 = (if take 1 r3 = ''-'' \<or> take 1 r3 = ''+'' then drop 1 r3 else r3);
          ed = (if take 1 r2 = ''e'' \<or> take 1 r2 = ''E'' then takeWhile is_digit r4 else []);
          ex = (if take 1 r3 = ''-'' then - int_of_digits ed else int_of_digits ed);
          q = scale10 (of_int (int_of_digits ip) + of_int (int_of_digits fp) / 10 ^ length fp) ex
      in if take 8 body = ''Infinity'' then signed_inf neg
         else if ip = [] \<and> fp = [] then NaN
         else if q = 0 then signed_zero neg
         else Fin (if neg then - q else q))"

definition series :: "nat \<Rightarrow> (nat \<Rightarrow> rat) \<Rightarrow> rat" where
  "series n f = sum_list (map f [0..<n])"

fun rfact :: "nat \<Rightarrow> rat" where
  "rfact 0 = 1"
| "rfact (Suc k) = of_nat (Suc k) * rfact k"

definition ref_exp :: "rat \<Rightarrow> rat" where
  "ref_exp x = series 24 (\<lambda>k. x ^ k / rfact k)"

definition ref_ln :: "rat \<Rightarrow> rat" where
  "ref_ln x = 2 * series 24 (\<lambda>k. ((x - 1) / (x + 1)) ^ (2 * k + 1) / of_nat (2 * k + 1))"

definition ref_sin :: "rat \<Rightarrow> rat" where
  "ref_sin x = series 12 (\<lambda>k. (- 1) ^ k * x ^ (2 * k + 1) / rfact (2 * k + 1))"

definition ref_cos :: "rat \<Rightarrow> rat" where
  "ref_cos x = series 12 (\<lambda>k. (- 1) ^ k * x ^ (2 * k) / rfact (2 * k))"

definition ref_sqrt :: "rat \<Rightarrow> rat" where
  "ref_sqrt x = ((\<lambda>y. (y + x / y) / 2) ^^ 8) ((x + 1) / 2)"

text \<open>A function of the finite numbers, not-a-number elsewhere unless said otherwise.\<close>

definition on_finite :: "(rat \<Rightarrow> number) \<Rightarrow> number \<Rightarrow> number" where
  "on_finite f x = (if isFinite x then f (fin_val x) else NaN)"

definition reference :: platform where
  "reference =
     \<lparr>roundDouble = Fin,
      parseFloat = ref_parseFloat,
      finiteToString = ref_finiteToString,
      finiteToExponential = ref_finiteToExponential,
      Math_sin = on_finite (\<lambda>q. Fin (ref_sin q)),
      Math_cos = on_finite (\<lambda>q. Fin (ref_cos q)),
      Math_tan = on_finite (\<lambda>q. if ref_cos q = 0 then PosInf else Fin (ref_sin q / ref_cos q)),
      Math_sqrt = (\<lambda>x. if x = PosInf then PosInf
                        else on_finite (\<lambda>q. if q < 0 then NaN else if q = 0 then x
                                              else Fin (ref_sqrt q)) x),
      Math_pow = (\<lambda>x y. if y = Fin 2 then on_finite (\<lambda>q. Fin (q * q)) x
                          else if y = Fin 3 then on_finite (\<lambda>q. Fin (q * q * q)) x
                          else on_finite (\<lambda>q. if q \<le> 0 then NaN
                                                else Fin (ref_exp (fin_val y * ref_ln q))) x),
      Math_log10 = (\<lambda>x. if x = PosInf then PosInf
                         else on_finite (\<lambda>q. if q < 0 then NaN else if q = 0 then NegInf
                                               else Fin (ref_ln q / ref_ln 10)) x),
      Math_log = (\<lambda>x. if x = PosInf then PosInf
                       else on_finite (\<lambda>q. if q < 0 then NaN else if q = 0 then NegInf
                                             else Fin (ref_ln q)) x),
      Math_exp = (\<lambda>x. if x = PosInf then PosInf else if x = NegInf then Fin 0
                       else on_finite (\<lambda>q. Fin (ref_exp q)) x),
      Math_PI = Fin (3141592653589793 / 10 ^ 15),
      Math_E = Fin (2718281828459045 / 10 ^ 15),
      maxCallDepth = 10000\<rparr>"

section \<open>Properties of formatting\<close>

lemma split_dot_nonempty: "split_dot s \<noteq> []"
  by (induction s) auto

lemma split_dot_no_dot: "CHR ''.'' \<notin> set s \<Longrightarrow> split_dot s = [s]"
  by (induction s) auto

lemma split_dot_single: "length (split_dot s) \<le> 1 \<Longrightarrow> split_dot s = [s]"
proof (induction s)
  case Nil
  then show ?case by simp
next
  case (Cons c cs)
  have ne: "split_dot cs \<noteq> []" by (rule split_dot_nonempty)
  show ?case
  proof (cases "c = CHR ''.''")
    case True
    with Cons.prems ne show ?thesis by (cases "split_dot cs") auto
  next
    case False
    with Cons.prems ne have "length (split_dot cs) \<le> 1"
      by (cases "split_dot cs") auto
    with Cons.IH have "split_dot cs = [cs]" by simp
    with False show ?thesis by simp
  qed
qed

lemma hd_split_dot_length: "length (hd (split_dot s)) \<le> length s"
  by (induction s) auto

lemma kept_Cons:
  "kept (c # cs) = (if c = CHR ''.'' then CHR ''.'' # hd (split_dot cs) else c # kept cs)"
proof -
  obtain p ps where sp: "split_dot cs = p # ps"
    using split_dot_nonempty [of cs] by (cases "split_dot cs") auto
  show ?thesis
    by (cases ps) (simp_all add: kept_def sp)
qed

lemma kept_length: "length (kept s) \<le> length s"
proof (induction s)
  case Nil
  show ?case by (simp add: kept_def)
next
  case (Cons c cs)
  then show ?case
    using hd_split_dot_length [of cs] by (simp add: kept_Cons)
qed

lemma kept_one_dot: "count_list s (CHR ''.'') \<le> 1 \<Longrightarrow> kept s = s"
proof (induction s)
  case Nil
  show ?case by (simp add: kept_def)
next
  case (Cons c cs)
  show ?case
  proof (cases "c = CHR ''.''")
    case True
    with Cons.prems have "count_list cs (CHR ''.'') = 0" by simp
    then have "CHR ''.'' \<notin> set cs" by (simp add: count_list_0_iff)
    then have "split_dot cs = [cs]" by (rule split_dot_no_dot)
    with True show ?thesis by (simp add: kept_Cons)
  next
    case False
    with Cons show ?thesis by (simp add: kept_Cons)
  qed
qed

lemma unformat_replace_groups: "unformatNumber (replace_groups l s) = unformatNumber s"
  by (induction s arbitrary: l) (auto simp: unformatNumber_def)

lemma unformat_append: "unformatNumber (a @ b) = unformatNumber a @ unformatNumber b"
  by (simp add: unformatNumber_def)

lemma unformat_format: "unformatNumber (formatNumber s) = unformatNumber (kept s)"
  by (simp add: formatNumber_def kept_def Let_def unformat_append unformat_replace_groups)

lemma unformat_no_comma: "CHR '','' \<notin> set s \<Longrightarrow> unformatNumber s = s"
  by (induction s) (auto simp: unformatNumber_def)

lemma unformat_length: "length (unformatNumber s) \<le> length s"
  by (simp add: unformatNumber_def)

lemma unformat_format_length: "length (unformatNumber (formatNumber s)) \<le> length s"
  using unformat_length [of "kept s"] kept_length [of s] by (simp add: unformat_format)

lemma replace_groups_empty: "replace_groups l s = [] \<longleftrightarrow> s = []"
  by (cases s) auto

lemma formatNumber_nonempty: "s \<noteq> [] \<Longrightarrow> formatNumber s \<noteq> []"
proof (cases "length (split_dot s) > 1")
  case True
  then show ?thesis by (simp add: formatNumber_def Let_def)
next
  case False
  assume "s \<noteq> []"
  from False have "split_dot s = [s]" by (simp add: split_dot_single)
  with \<open>s \<noteq> []\<close> show ?thesis
    by (simp add: formatNumber_def Let_def replace_groups_empty)
qed

text \<open>
  C4. \<open>unformatNumber\<close> undoes \<open>formatNumber\<close> on every unformatted string that groups
  validly: a string with no grouping separator and at most one decimal point, which
  covers every decimal numeral, signed or not, with or without a fraction.
\<close>

theorem unformat_format_inverse:
  "CHR '','' \<notin> set s \<Longrightarrow> count_list s (CHR ''.'') \<le> 1
   \<Longrightarrow> unformatNumber (formatNumber s) = s"
  by (simp add: unformat_format kept_one_dot unformat_no_comma)

theorem unformat_format_inverse_witness:
  "CHR '','' \<notin> set ''-1234567.891'' \<and> count_list ''-1234567.891'' (CHR ''.'') \<le> 1
   \<and> formatNumber ''-1234567.891'' = ''-1,234,567.891''
   \<and> unformatNumber (formatNumber ''-1234567.891'') = ''-1234567.891''"
proof -
  have a: "CHR '','' \<notin> set ''-1234567.891''" by simp
  have b: "count_list ''-1234567.891'' (CHR ''.'') \<le> 1" by simp
  have c: "formatNumber ''-1234567.891'' = ''-1,234,567.891''" by code_simp
  from a b c unformat_format_inverse [OF a b] show ?thesis by blast
qed

section \<open>The digit cap\<close>

lemma handleNumber_at_cap:
  "length (unformatNumber (display s)) \<ge> MAX_DIGITS \<Longrightarrow> handleNumber num s = s"
  by (simp add: handleNumber_def)

lemma handleNumber_below_cap:
  assumes "length (unformatNumber (display s)) < MAX_DIGITS"
  shows "length (unformatNumber (display (handleNumber [d] s))) \<le> MAX_DIGITS"
proof -
  have "length (unformatNumber (formatNumber [d])) \<le> MAX_DIGITS"
    using unformat_format_length [of "[d]"] by (simp add: MAX_DIGITS_def)
  moreover have "length (unformatNumber (formatNumber (unformatNumber (display s) @ [d])))
      \<le> MAX_DIGITS"
    using unformat_format_length [of "unformatNumber (display s) @ [d]"] assms by simp
  ultimately show ?thesis
    using assms by (simp add: handleNumber_def Let_def)
qed

lemma handleNumber_keeps_cap:
  "length (unformatNumber (display s)) \<le> MAX_DIGITS
   \<Longrightarrow> length (unformatNumber (display (handleNumber [d] s))) \<le> MAX_DIGITS"
  using handleNumber_at_cap [of s "[d]"] handleNumber_below_cap [of s d]
  by (cases "length (unformatNumber (display s)) < MAX_DIGITS") auto

lemma handleBackspace_keeps_cap:
  assumes "length (unformatNumber (display s)) \<le> MAX_DIGITS"
  shows "length (unformatNumber (display (handleBackspace s))) \<le> MAX_DIGITS"
proof -
  have "length (unformatNumber (formatNumber ''0'')) \<le> MAX_DIGITS"
    using unformat_format_length [of "''0''"] by (simp add: MAX_DIGITS_def)
  moreover have "length (unformatNumber (formatNumber (butlast (unformatNumber (display s)))))
      \<le> MAX_DIGITS"
    using unformat_format_length [of "butlast (unformatNumber (display s))"] assms by simp
  ultimately show ?thesis
    by (simp add: handleBackspace_def Let_def)
qed

lemma unformat_zero: "length (unformatNumber ''0'') \<le> MAX_DIGITS"
  by (simp add: unformatNumber_def MAX_DIGITS_def)

lemma entry_step_keeps_cap:
  assumes "entry_event e" and "step P e s = Some s'"
    and "length (unformatNumber (display s)) \<le> MAX_DIGITS"
  shows "length (unformatNumber (display s')) \<le> MAX_DIGITS"
proof (cases e)
  case (Digit d)
  with assms handleNumber_keeps_cap [of s d] show ?thesis by auto
next
  case Backspace
  with assms handleBackspace_keeps_cap [of s] show ?thesis by auto
next
  case (Operator op)
  with assms unformat_zero show ?thesis by (auto simp: handleOperation_def)
next
  case Clear
  with assms unformat_zero show ?thesis by (auto simp: clear_def)
next
  case ToggleMode
  with assms show ?thesis by (auto simp: toggleMode_def)
next
  case ToggleAngleUnit
  with assms show ?thesis by (auto simp: toggleAngleUnit_def)
qed (use assms in auto)

lemma entry_run_keeps_cap:
  "list_all entry_event es \<Longrightarrow> run P es s = Some s'
   \<Longrightarrow> length (unformatNumber (display s)) \<le> MAX_DIGITS
   \<Longrightarrow> length (unformatNumber (display s')) \<le> MAX_DIGITS"
proof (induction es arbitrary: s)
  case Nil
  then show ?case by simp
next
  case (Cons e es)
  from Cons.prems obtain s1 where s1: "step P e s = Some s1" and r: "run P es s1 = Some s'"
    by (auto split: option.splits)
  from Cons.prems s1 have "length (unformatNumber (display s1)) \<le> MAX_DIGITS"
    using entry_step_keeps_cap [of e P s s1] by simp
  with Cons.IH [OF _ r] Cons.prems show ?case by simp
qed

text \<open>
  C9. A digit entered while the unformatted display has 16 characters leaves the state
  as it is, and digit entry never produces an unformatted display of more than 16
  characters: whenever it changes the state the new display is within the cap, and a
  display within the cap stays within it.
\<close>

theorem digit_entry_capped:
  "(length (unformatNumber (display s)) = MAX_DIGITS \<longrightarrow> handleNumber [d] s = s)
   \<and> (handleNumber [d] s \<noteq> s
        \<longrightarrow> length (unformatNumber (display (handleNumber [d] s))) \<le> MAX_DIGITS)
   \<and> (length (unformatNumber (display s)) \<le> MAX_DIGITS
        \<longrightarrow> length (unformatNumber (display (handleNumber [d] s))) \<le> MAX_DIGITS)"
  using handleNumber_at_cap [of s "[d]"] handleNumber_below_cap [of s d]
    handleNumber_keeps_cap [of s d]
  by (cases "length (unformatNumber (display s)) < MAX_DIGITS") auto


theorem digit_entry_capped_witness:
  "length (unformatNumber (display (initialState\<lparr>display := ''1,111,111,111,111,111''\<rparr>)))
     = MAX_DIGITS
   \<and> handleNumber ''2'' (initialState\<lparr>display := ''1,111,111,111,111,111''\<rparr>)
       = initialState\<lparr>display := ''1,111,111,111,111,111''\<rparr>
   \<and> handleNumber ''3'' (initialState\<lparr>display := ''12''\<rparr>) \<noteq> initialState\<lparr>display := ''12''\<rparr>
   \<and> length (unformatNumber (display (initialState\<lparr>display := ''12''\<rparr>))) \<le> MAX_DIGITS
   \<and> length (unformatNumber (display (handleNumber ''3'' (initialState\<lparr>display := ''12''\<rparr>))))
       \<le> MAX_DIGITS"
proof -
  have a: "length (unformatNumber (display (initialState\<lparr>display := ''1,111,111,111,111,111''\<rparr>)))
     = MAX_DIGITS"
    by code_simp
  have b: "handleNumber ''3'' (initialState\<lparr>display := ''12''\<rparr>) \<noteq> initialState\<lparr>display := ''12''\<rparr>"
    by code_simp
  have c: "length (unformatNumber (display (initialState\<lparr>display := ''12''\<rparr>))) \<le> MAX_DIGITS"
    by code_simp
  from a b c
    digit_entry_capped [of "initialState\<lparr>display := ''1,111,111,111,111,111''\<rparr>" "CHR ''2''"]
    digit_entry_capped [of "initialState\<lparr>display := ''12''\<rparr>" "CHR ''3''"]
  show ?thesis by blast
qed

text \<open>
  C2, as stated, fails. The decimal point is appended with no look at the cap, so sixteen
  digits followed by the decimal point give an unformatted display of 17 characters; and
  the scientific functions print their result with no look at the cap either, so the
  constant pi, which prints as \<open>3.141592653589793\<close>, gives 17 characters as well.
\<close>

theorem display_exceeds_cap:
  "list_all valid_event (replicate 16 (Digit CHR ''1'') @ [DecimalPoint])
   \<and> run reference (replicate 16 (Digit CHR ''1'') @ [DecimalPoint]) initialState
       = Some (initialState\<lparr>display := ''1,111,111,111,111,111.''\<rparr>)
   \<and> unformatNumber ''1,111,111,111,111,111.'' = ''1111111111111111.''
   \<and> length ''1111111111111111.'' = 17
   \<and> list_all valid_event [ToggleMode, Function ''pi'']
   \<and> run reference [ToggleMode, Function ''pi''] initialState
       = Some (initialState\<lparr>display := ''3.141592653589793'', mode := Scientific\<rparr>)
   \<and> length (unformatNumber ''3.141592653589793'') = 17"
  by code_simp

text \<open>
  C2, amended. In every state reached from the initial state by digit entry, backspace,
  operator selection, clear and the two toggles, the unformatted display has at most 16
  characters, and a digit entered at the cap is dropped: the state stays as it is.
\<close>

theorem entry_display_capped:
  "list_all entry_event es \<Longrightarrow> run P es initialState = Some s
   \<Longrightarrow> length (unformatNumber (display s)) \<le> MAX_DIGITS
       \<and> (length (unformatNumber (display s)) = MAX_DIGITS
            \<longrightarrow> step P (Digit d) s = Some s)"
  using entry_run_keeps_cap [of es P initialState s] handleNumber_at_cap [of s "[d]"]
  by (simp add: initialState_def unformatNumber_def MAX_DIGITS_def)

theorem entry_display_capped_witness:
  "list_all entry_event (replicate 16 (Digit CHR ''1'') @ [Digit CHR ''2''])
   \<and> run reference (replicate 16 (Digit CHR ''1'') @ [Digit CHR ''2'']) initialState
       = Some (initialState\<lparr>display := ''1,111,111,111,111,111''\<rparr>)
   \<and> length (unformatNumber (display (initialState\<lparr>display := ''1,111,111,111,111,111''\<rparr>)))
       \<le> MAX_DIGITS
   \<and> length (unformatNumber (display (initialState\<lparr>display := ''1,111,111,111,111,111''\<rparr>)))
       = MAX_DIGITS
   \<and> step reference (Digit CHR ''2'') (initialState\<lparr>display := ''1,111,111,111,111,111''\<rparr>)
       = Some (initialState\<lparr>display := ''1,111,111,111,111,111''\<rparr>)"
proof -
  have c: "length (unformatNumber (display (initialState\<lparr>display := ''1,111,111,111,111,111''\<rparr>)))
       = MAX_DIGITS"
    by code_simp
  have a: "list_all entry_event (replicate 16 (Digit CHR ''1'') @ [Digit CHR ''2''])"
    by code_simp
  have b: "run reference (replicate 16 (Digit CHR ''1'') @ [Digit CHR ''2'']) initialState
       = Some (initialState\<lparr>display := ''1,111,111,111,111,111''\<rparr>)"
    by code_simp
  from a b c entry_display_capped [OF a b, of "CHR ''2''"] show ?thesis by blast
qed


section \<open>The pending operation\<close>

lemma toString_nonempty: "\<forall>q. finiteToString P q \<noteq> [] \<Longrightarrow> toString P x \<noteq> []"
  by (cases x) (simp_all add: toString_def)

lemma handleNumber_well_formed: "well_formed s \<Longrightarrow> well_formed (handleNumber [d] s)"
  by (simp add: handleNumber_def Let_def well_formed_def formatNumber_nonempty)

lemma handleDecimal_well_formed: "well_formed s \<Longrightarrow> well_formed (handleDecimal s)"
  by (simp add: handleDecimal_def Let_def well_formed_def formatNumber_nonempty)

lemma handleBackspace_well_formed: "well_formed s \<Longrightarrow> well_formed (handleBackspace s)"
  by (simp add: handleBackspace_def Let_def well_formed_def formatNumber_nonempty)

lemma handleOperation_well_formed: "well_formed s \<Longrightarrow> well_formed (handleOperation op s)"
  by (simp add: handleOperation_def well_formed_def)

lemma calculate_well_formed:
  "\<forall>q. finiteToString P q \<noteq> [] \<Longrightarrow> well_formed s \<Longrightarrow> well_formed (calculate P s)"
  by (simp add: calculate_def well_formed_def formatNumber_nonempty toString_nonempty
      split: option.splits)

lemma handlePercent_well_formed:
  "\<forall>q. finiteToString P q \<noteq> [] \<Longrightarrow> well_formed s \<Longrightarrow> well_formed (handlePercent P s)"
  by (simp add: handlePercent_def Let_def well_formed_def formatNumber_nonempty toString_nonempty)

lemma handleScientific_well_formed:
  "\<forall>q. finiteToString P q \<noteq> [] \<Longrightarrow> well_formed s \<Longrightarrow> handleScientific P func s = Some s'
   \<Longrightarrow> well_formed s'"
  by (auto simp: handleScientific_def Let_def well_formed_def formatNumber_nonempty
      toString_nonempty split: option.splits if_splits)

lemma step_well_formed:
  assumes "\<forall>q. finiteToString P q \<noteq> []" and "well_formed s" and "step P e s = Some s'"
  shows "well_formed s'"
proof (cases e)
  case (Digit d)
  with assms handleNumber_well_formed [of s d] show ?thesis by auto
next
  case DecimalPoint
  with assms handleDecimal_well_formed [of s] show ?thesis by auto
next
  case Backspace
  with assms handleBackspace_well_formed [of s] show ?thesis by auto
next
  case (Operator op)
  with assms handleOperation_well_formed [of s op] show ?thesis by auto
next
  case Equals
  with assms calculate_well_formed [of P s] show ?thesis by auto
next
  case Percent
  with assms handlePercent_well_formed [of P s] show ?thesis by auto
next
  case (Function func)
  with assms handleScientific_well_formed [of P s func s'] show ?thesis by auto
next
  case ToggleMode
  with assms show ?thesis by (auto simp: toggleMode_def well_formed_def)
next
  case ToggleAngleUnit
  with assms show ?thesis by (auto simp: toggleAngleUnit_def well_formed_def)
next
  case Clear
  with assms show ?thesis by (auto simp: clear_def well_formed_def)
qed

lemma run_well_formed:
  "\<forall>q. finiteToString P q \<noteq> [] \<Longrightarrow> well_formed s \<Longrightarrow> run P es s = Some s'
   \<Longrightarrow> well_formed s'"
proof (induction es arbitrary: s)
  case Nil
  then show ?case by simp
next
  case (Cons e es)
  from Cons.prems obtain s1 where s1: "step P e s = Some s1" and r: "run P es s1 = Some s'"
    by (auto split: option.splits)
  from Cons.prems s1 have "well_formed s1"
    using step_well_formed [of P s e s1] by simp
  with Cons.IH [OF Cons.prems(1) _ r] show ?case by simp
qed

lemma digits_of_nonempty: "digits_of n \<noteq> []"
  by (subst digits_of.simps) simp

lemma ref_finiteToString_nonempty: "ref_finiteToString q \<noteq> []"
  by (simp add: ref_finiteToString_def Let_def digits_of_nonempty)

lemma reference_prints: "\<forall>q. finiteToString reference q \<noteq> []"
  by (simp add: reference_def ref_finiteToString_nonempty)

text \<open>
  C5. In every state reached from the initial state by any sequence of events, an
  operation is stored if and only if the previous value is not empty. The platform is
  asked for one thing: that it prints no finite number as the empty string.
\<close>

theorem operation_iff_previousValue:
  "\<forall>q. finiteToString P q \<noteq> [] \<Longrightarrow> run P es initialState = Some s
   \<Longrightarrow> (operation s \<noteq> None \<longleftrightarrow> previousValue s \<noteq> [])"
  using run_well_formed [of P initialState es s]
  by (simp add: well_formed_def initialState_def)

theorem operation_iff_previousValue_witness:
  "(\<forall>q. finiteToString reference q \<noteq> [])
   \<and> run reference [Digit CHR ''7'', Operator ''+'', Digit CHR ''5''] initialState
       = Some (initialState\<lparr>display := ''5'', previousValue := ''7'', operation := Some ''+''\<rparr>)
   \<and> operation (initialState\<lparr>display := ''5'', previousValue := ''7'', operation := Some ''+''\<rparr>)
       \<noteq> None
   \<and> previousValue (initialState\<lparr>display := ''5'', previousValue := ''7'',
         operation := Some ''+''\<rparr>) \<noteq> []"
proof -
  have b: "run reference [Digit CHR ''7'', Operator ''+'', Digit CHR ''5''] initialState
       = Some (initialState\<lparr>display := ''5'', previousValue := ''7'', operation := Some ''+''\<rparr>)"
    by code_simp
  have c: "operation (initialState\<lparr>display := ''5'', previousValue := ''7'',
      operation := Some ''+''\<rparr>) \<noteq> None"
    by simp
  from reference_prints b c operation_iff_previousValue [OF reference_prints b]
  show ?thesis by blast
qed


section \<open>Emotion at the thresholds\<close>

text \<open>
  C1, as stated, fails at 1000: the first test \<open>result > 1000\<close> is false there, but the
  second, \<open>result > 100\<close>, is true, so the emotion is happy and not neutral.
\<close>

theorem result_1000_is_happy:
  "calculate_result reference
     (initialState\<lparr>display := ''500'', previousValue := ''500'', operation := Some ''+''\<rparr>)
     = Some (Fin 1000)
   \<and> emotion (calculate reference
       (initialState\<lparr>display := ''500'', previousValue := ''500'', operation := Some ''+''\<rparr>))
     = Happy"
  by code_simp

text \<open>
  C1, amended. Both thresholds are strict: an evaluation through \<open>calculate\<close> whose result
  is exactly 1000 gives the emotion happy, not excited, and one whose result is exactly
  100 gives neutral, not happy.
\<close>

theorem boundary_emotions:
  "(calculate_result P s = Some (Fin 1000) \<longrightarrow> emotion (calculate P s) = Happy)
   \<and> (calculate_result P s = Some (Fin 100) \<longrightarrow> emotion (calculate P s) = Neutral)"
  by (simp add: calculate_def getEmotion_def js_less_def)

theorem boundary_emotions_witness:
  "calculate_result reference
     (initialState\<lparr>display := ''1'', previousValue := ''1001'', operation := Some ''-''\<rparr>)
     = Some (Fin 1000)
   \<and> emotion (calculate reference
       (initialState\<lparr>display := ''1'', previousValue := ''1001'', operation := Some ''-''\<rparr>))
     = Happy
   \<and> calculate_result reference
     (initialState\<lparr>display := ''60'', previousValue := ''40'', operation := Some ''+''\<rparr>)
     = Some (Fin 100)
   \<and> emotion (calculate reference
       (initialState\<lparr>display := ''60'', previousValue := ''40'', operation := Some ''+''\<rparr>))
     = Neutral"
proof -
  have a: "calculate_result reference
     (initialState\<lparr>display := ''1'', previousValue := ''1001'', operation := Some ''-''\<rparr>)
     = Some (Fin 1000)"
    by code_simp
  have b: "calculate_result reference
     (initialState\<lparr>display := ''60'', previousValue := ''40'', operation := Some ''+''\<rparr>)
     = Some (Fin 100)"
    by code_simp
  from a b
    boundary_emotions [of reference
      "initialState\<lparr>display := ''1'', previousValue := ''1001'', operation := Some ''-''\<rparr>"]
    boundary_emotions [of reference
      "initialState\<lparr>display := ''60'', previousValue := ''40'', operation := Some ''+''\<rparr>"]
  show ?thesis by blast
qed

section \<open>Percent\<close>

lemma handlePercent_pending:
  "pending s \<Longrightarrow>
      handlePercent P s =
        s\<lparr>display := formatNumber (toString P
             (js_div P (js_mul P (parseFloat P (unformatNumber (previousValue s)))
                                (parseFloat P (unformatNumber (display s)))) (Fin 100)))\<rparr>"
  by (simp add: handlePercent_def Let_def)

lemma handlePercent_plain:
  "\<not> pending s \<Longrightarrow>
      handlePercent P s =
        s\<lparr>display := formatNumber (toString P
             (js_div P (parseFloat P (unformatNumber (display s))) (Fin 100)))\<rparr>"
  by (simp add: handlePercent_def Let_def)

lemma handlePercent_frame:
  "operation (handlePercent P s) = operation s
   \<and> previousValue (handlePercent P s) = previousValue s
   \<and> emotion (handlePercent P s) = emotion s
   \<and> mode (handlePercent P s) = mode s
   \<and> angleUnit (handlePercent P s) = angleUnit s
   \<and> memory (handlePercent P s) = memory s"
  by (simp add: handlePercent_def Let_def)

lemma format_5: "formatNumber ''5'' = ''5''"
  by code_simp

lemma percent_50_10:
  assumes "previousValue s = ''50''" "display s = ''10''" "operation s = Some op" "op \<noteq> []"
    and "parseFloat P ''50'' = Fin 50" "parseFloat P ''10'' = Fin 10"
    and "roundDouble P 500 = Fin 500" "roundDouble P 5 = Fin 5"
    and "finiteToString P 5 = ''5''"
  shows "display (handlePercent P s) = ''5''"
proof -
  have p: "pending s" using assms by (simp add: pending_def)
  have u: "unformatNumber ''50'' = ''50''" "unformatNumber ''10'' = ''10''"
    by (simp_all add: unformatNumber_def)
  have m: "js_mul P (Fin 50) (Fin 10) = Fin 500"
    using assms by (simp add: js_mul_def)
  have d: "js_div P (Fin 500) (Fin 100) = Fin 5"
    using assms by (simp add: js_div_def)
  have t: "toString P (Fin 5) = ''5''"
    using assms by (simp add: toString_def)
  show ?thesis
    by (simp add: handlePercent_pending [OF p] assms(1,2,5,6) u m d t format_5)
qed

text \<open>
  C6. With a pending operation \<open>handlePercent\<close> sets the display to previous value times
  display over 100, and with none to the display over 100; operation, previous value and
  emotion stay as they are in both branches. With previous value 50 and display 10, on a
  platform that reads and prints these numerals and computes 50 * 10 / 100 exactly, the
  new display is 5 and the operation is still set.
\<close>

theorem percent_of_pending:
  "(pending s \<longrightarrow>
      handlePercent P s =
        s\<lparr>display := formatNumber (toString P
             (js_div P (js_mul P (parseFloat P (unformatNumber (previousValue s)))
                                (parseFloat P (unformatNumber (display s)))) (Fin 100)))\<rparr>)
   \<and> (\<not> pending s \<longrightarrow>
      handlePercent P s =
        s\<lparr>display := formatNumber (toString P
             (js_div P (parseFloat P (unformatNumber (display s))) (Fin 100)))\<rparr>)
   \<and> operation (handlePercent P s) = operation s
   \<and> previousValue (handlePercent P s) = previousValue s
   \<and> emotion (handlePercent P s) = emotion s
   \<and> (previousValue s = ''50'' \<and> display s = ''10'' \<and> operation s = Some op \<and> op \<noteq> []
        \<and> parseFloat P ''50'' = Fin 50 \<and> parseFloat P ''10'' = Fin 10
        \<and> roundDouble P 500 = Fin 500 \<and> roundDouble P 5 = Fin 5
        \<and> finiteToString P 5 = ''5''
      \<longrightarrow> display (handlePercent P s) = ''5'' \<and> operation (handlePercent P s) = Some op)"
  using handlePercent_pending [of s P] handlePercent_plain [of s P] handlePercent_frame [of P s]
    percent_50_10 [of s op P]
  by metis


theorem percent_of_pending_witness:
  "pending (initialState\<lparr>display := ''10'', previousValue := ''50'', operation := Some ''+''\<rparr>)
   \<and> \<not> pending (initialState\<lparr>display := ''50''\<rparr>)
   \<and> parseFloat reference ''50'' = Fin 50 \<and> parseFloat reference ''10'' = Fin 10
   \<and> roundDouble reference 500 = Fin 500 \<and> roundDouble reference 5 = Fin 5
   \<and> finiteToString reference 5 = ''5''
   \<and> display (handlePercent reference
        (initialState\<lparr>display := ''10'', previousValue := ''50'', operation := Some ''+''\<rparr>))
      = ''5''
   \<and> operation (handlePercent reference
        (initialState\<lparr>display := ''10'', previousValue := ''50'', operation := Some ''+''\<rparr>))
      = Some ''+''
   \<and> handlePercent reference (initialState\<lparr>display := ''50''\<rparr>)
      = initialState\<lparr>display := formatNumber (toString reference
          (js_div reference (parseFloat reference (unformatNumber
             (display (initialState\<lparr>display := ''50''\<rparr>)))) (Fin 100)))\<rparr>"
proof -
  have a: "pending (initialState\<lparr>display := ''10'', previousValue := ''50'',
      operation := Some ''+''\<rparr>)"
    by code_simp
  have b: "\<not> pending (initialState\<lparr>display := ''50''\<rparr>)"
    by code_simp
  have c: "parseFloat reference ''50'' = Fin 50" "parseFloat reference ''10'' = Fin 10"
    "roundDouble reference 500 = Fin 500" "roundDouble reference 5 = Fin 5"
    "finiteToString reference 5 = ''5''"
    by code_simp+
  have d: "previousValue (initialState\<lparr>display := ''10'', previousValue := ''50'',
      operation := Some ''+''\<rparr>) = ''50''"
    "display (initialState\<lparr>display := ''10'', previousValue := ''50'',
      operation := Some ''+''\<rparr>) = ''10''"
    "operation (initialState\<lparr>display := ''10'', previousValue := ''50'',
      operation := Some ''+''\<rparr>) = Some ''+''"
    "''+'' \<noteq> []"
    by simp_all
  have e: "initialState\<lparr>display := ''50'', display := x\<rparr> = initialState\<lparr>display := x\<rparr>" for x
    by simp
  from a b c d
    percent_of_pending [of "initialState\<lparr>display := ''10'', previousValue := ''50'',
      operation := Some ''+''\<rparr>" reference "''+''"]
    percent_of_pending [of "initialState\<lparr>display := ''50''\<rparr>" reference "''+''"]
  show ?thesis unfolding e by blast
qed

section \<open>Errors of the scientific functions\<close>

lemma handleScientific_error:
  "scientific_switch P (angleUnit s) func (parseFloat P (unformatNumber (display s)))
     = Some (Some r)
   \<Longrightarrow> isNaN r \<or> \<not> isFinite r
   \<Longrightarrow> handleScientific P func s = Some (s\<lparr>display := ''Error'', emotion := Sad\<rparr>)"
  by (simp add: handleScientific_def Let_def)

lemma switch_sqrt: "scientific_switch P au ''sqrt'' x = Some (Some (Math_sqrt P x))"
  by (simp add: scientific_switch_def)

lemma sqrt_minus_4:
  assumes "display s = ''-4''" "parseFloat P ''-4'' = Fin (- 4)" "Math_sqrt P (Fin (- 4)) = NaN"
  shows "handleScientific P ''sqrt'' s = Some (s\<lparr>display := ''Error'', emotion := Sad\<rparr>)"
proof -
  have "unformatNumber (display s) = ''-4''"
    using assms(1) by (simp add: unformatNumber_def)
  then have "scientific_switch P (angleUnit s) ''sqrt''
      (parseFloat P (unformatNumber (display s))) = Some (Some NaN)"
    using assms(2,3) by (simp add: switch_sqrt)
  then show ?thesis
    by (rule handleScientific_error) simp
qed

text \<open>
  C7. Whenever the number computed by a scientific function is not-a-number or not
  finite, the display becomes the sentinel \<open>Error\<close> and the emotion sad. So it is for
  the square root on the display \<open>-4\<close>, on a platform that reads \<open>-4\<close> as the number
  and has no square root of it.
\<close>

theorem scientific_error_sentinel:
  "(scientific_switch P (angleUnit s) func (parseFloat P (unformatNumber (display s)))
      = Some (Some r) \<and> (isNaN r \<or> \<not> isFinite r)
    \<longrightarrow> handleScientific P func s = Some (s\<lparr>display := ''Error'', emotion := Sad\<rparr>))
   \<and> (display s = ''-4'' \<and> parseFloat P ''-4'' = Fin (- 4) \<and> Math_sqrt P (Fin (- 4)) = NaN
    \<longrightarrow> handleScientific P ''sqrt'' s = Some (s\<lparr>display := ''Error'', emotion := Sad\<rparr>))"
  using handleScientific_error [of P s func r] sqrt_minus_4 [of s P] by blast

theorem scientific_error_sentinel_witness:
  "scientific_switch reference (angleUnit (initialState\<lparr>display := ''-4''\<rparr>)) ''sqrt''
     (parseFloat reference (unformatNumber (display (initialState\<lparr>display := ''-4''\<rparr>))))
     = Some (Some NaN)
   \<and> isNaN NaN
   \<and> display (initialState\<lparr>display := ''-4''\<rparr>) = ''-4''
   \<and> parseFloat reference ''-4'' = Fin (- 4) \<and> Math_sqrt reference (Fin (- 4)) = NaN
   \<and> handleScientific reference ''sqrt'' (initialState\<lparr>display := ''-4''\<rparr>)
      = Some (initialState\<lparr>display := ''-4''\<rparr>\<lparr>display := ''Error'', emotion := Sad\<rparr>)"
proof -
  have a: "scientific_switch reference (angleUnit (initialState\<lparr>display := ''-4''\<rparr>)) ''sqrt''
     (parseFloat reference (unformatNumber (display (initialState\<lparr>display := ''-4''\<rparr>))))
     = Some (Some NaN)"
    by code_simp
  have b: "isNaN NaN" by simp
  have c: "display (initialState\<lparr>display := ''-4''\<rparr>) = ''-4''" by simp
  have d: "parseFloat reference ''-4'' = Fin (- 4)" "Math_sqrt reference (Fin (- 4)) = NaN"
    by code_simp+
  from a b c d
    scientific_error_sentinel [of reference "initialState\<lparr>display := ''-4''\<rparr>" "''sqrt''" NaN]
  show ?thesis by blast
qed

text \<open>
  C10. Whenever the number computed by a scientific function is not-a-number or not
  finite, the updater returns a state whose previous value, operation, mode, angle unit
  and memory are those of the state before, so a pending operation stays pending.
\<close>

theorem scientific_error_frame:
  "scientific_switch P (angleUnit s) func (parseFloat P (unformatNumber (display s)))
     = Some (Some r)
   \<Longrightarrow> isNaN r \<or> \<not> isFinite r
   \<Longrightarrow> \<exists>s'. handleScientific P func s = Some s'
        \<and> previousValue s' = previousValue s \<and> operation s' = operation s
        \<and> mode s' = mode s \<and> angleUnit s' = angleUnit s \<and> memory s' = memory s
        \<and> pending s' = pending s"
  using handleScientific_error [of P s func r] by (simp add: pending_def)

theorem scientific_error_frame_witness:
  "scientific_switch reference
     (angleUnit (initialState\<lparr>display := ''0'', previousValue := ''8'', operation := Some ''+''\<rparr>))
     ''ln''
     (parseFloat reference (unformatNumber
        (display (initialState\<lparr>display := ''0'', previousValue := ''8'',
           operation := Some ''+''\<rparr>))))
     = Some (Some NegInf)
   \<and> \<not> isFinite NegInf
   \<and> (\<exists>s'. handleScientific reference ''ln''
          (initialState\<lparr>display := ''0'', previousValue := ''8'', operation := Some ''+''\<rparr>)
          = Some s'
        \<and> previousValue s' = ''8'' \<and> operation s' = Some ''+'')"
proof -
  have a: "scientific_switch reference
     (angleUnit (initialState\<lparr>display := ''0'', previousValue := ''8'', operation := Some ''+''\<rparr>))
     ''ln''
     (parseFloat reference (unformatNumber
        (display (initialState\<lparr>display := ''0'', previousValue := ''8'',
           operation := Some ''+''\<rparr>))))
     = Some (Some NegInf)"
    by code_simp
  have b: "\<not> isFinite NegInf" by simp
  from scientific_error_frame [OF a disjI2 [OF b]] a b show ?thesis by auto
qed

section \<open>Division by zero\<close>

lemma js_div_by_zero:
  "is_zero b \<Longrightarrow> js_div P a b = NaN \<or> js_div P a b = PosInf \<or> js_div P a b = NegInf"
  by (cases b) (auto simp: js_div_def signed_inf_def)

lemma switch_divide:
  "binary_switch P (Some divide_sign) a b = Some (js_div P a b)"
  by (simp add: binary_switch_def divide_sign_def times_sign_def)

lemma special_prints:
  "r = NaN \<or> r = PosInf \<or> r = NegInf
   \<Longrightarrow> toString P r \<in> {''NaN'', ''Infinity'', ''-Infinity''}"
  by (auto simp: toString_def)

lemma special_not_shortened:
  "r = NaN \<or> r = PosInf \<or> r = NegInf \<Longrightarrow> shorten P r = r"
  by (auto simp: shorten_def toString_def MAX_DIGITS_def)

lemma format_special:
  "formatNumber ''NaN'' = ''NaN''" "formatNumber ''Infinity'' = ''Infinity''"
  "formatNumber ''-Infinity'' = ''-Infinity''"
  by code_simp+

lemma special_formats:
  "r = NaN \<or> r = PosInf \<or> r = NegInf \<Longrightarrow> formatNumber (toString P r) = toString P r"
  by (auto simp: toString_def format_special)

text \<open>
  C8. \<open>calculate\<close> with the division pending and a right operand that is zero takes the
  normal path: the quotient is not-a-number or an infinity, it is printed under its name
  into the display, and the display is never the sentinel \<open>Error\<close>.
\<close>

theorem divide_by_zero_propagates:
  assumes "operation s = Some divide_sign"
    and "is_zero (parseFloat P (unformatNumber (display s)))"
  shows "let r = js_div P (parseFloat P (unformatNumber (previousValue s)))
                         (parseFloat P (unformatNumber (display s)))
         in (r = NaN \<or> r = PosInf \<or> r = NegInf)
            \<and> calculate P s = s\<lparr>display := toString P r, previousValue := [],
                                 operation := None, emotion := getEmotion r\<rparr>
            \<and> display (calculate P s) \<in> {''NaN'', ''Infinity'', ''-Infinity''}
            \<and> display (calculate P s) \<noteq> ''Error''"
proof -
  define r where "r = js_div P (parseFloat P (unformatNumber (previousValue s)))
                         (parseFloat P (unformatNumber (display s)))"
  have sp: "r = NaN \<or> r = PosInf \<or> r = NegInf"
    unfolding r_def using assms(2) by (rule js_div_by_zero)
  have res: "calculate_result P s = Some r"
    by (simp add: calculate_result_def assms(1) switch_divide special_not_shortened [OF sp]
        r_def [symmetric])
  have calc: "calculate P s = s\<lparr>display := toString P r, previousValue := [],
                                 operation := None, emotion := getEmotion r\<rparr>"
    by (simp add: calculate_def res special_formats [OF sp])
  have disp: "display (calculate P s) \<in> {''NaN'', ''Infinity'', ''-Infinity''}"
    using special_prints [OF sp, of P] by (simp add: calc)
  then have "display (calculate P s) \<noteq> ''Error''" by auto
  with sp calc disp show ?thesis
    unfolding r_def [symmetric] by (simp add: Let_def)
qed


theorem divide_by_zero_propagates_witness:
  "operation (initialState\<lparr>display := ''0'', previousValue := ''5'',
      operation := Some divide_sign\<rparr>) = Some divide_sign
   \<and> is_zero (parseFloat reference (unformatNumber
        (display (initialState\<lparr>display := ''0'', previousValue := ''5'',
           operation := Some divide_sign\<rparr>))))
   \<and> display (calculate reference (initialState\<lparr>display := ''0'', previousValue := ''5'',
        operation := Some divide_sign\<rparr>)) \<in> {''NaN'', ''Infinity'', ''-Infinity''}
   \<and> display (calculate reference (initialState\<lparr>display := ''0'', previousValue := ''5'',
        operation := Some divide_sign\<rparr>)) \<noteq> ''Error''"
proof -
  have a: "operation (initialState\<lparr>display := ''0'', previousValue := ''5'',
      operation := Some divide_sign\<rparr>) = Some divide_sign"
    by simp
  have b: "is_zero (parseFloat reference (unformatNumber
        (display (initialState\<lparr>display := ''0'', previousValue := ''5'',
           operation := Some divide_sign\<rparr>))))"
    by code_simp
  from divide_by_zero_propagates [OF a b, unfolded Let_def] a b show ?thesis by blast
qed

section \<open>The end of the factorial\<close>










text \<open>
  On not-a-number both tests fail and the argument stays not-a-number, so the calls go
  on until the stack is full.
\<close>

lemma factorial_calls_NaN: "factorial_calls P d NaN = None"
  by (induction d) (simp_all add: js_less_def js_le_def js_sub_def js_add_def)

lemma factorial_NaN: "factorial P NaN = None"
  by (simp add: factorial_def factorial_calls_NaN)




end
